theory Spec2Isabelle
  imports Main "HOL-Library.Word"
begin

section \<open>Memory: pointers, C strings and the internal allocator\<close>

text \<open>
  \<^verbatim>\<open>char *\<close> values are either the null pointer or the address of a block. Addresses are
  natural numbers: the claims below never depend on the width of the address space.
\<close>

datatype ptr = Null | Addr nat

text \<open>
  A block holds one NUL-terminated string (kept here without its terminator) and is
  either owned by the internal allocator or by somebody else (a string literal, a buffer of
  the caller). The heap lists the blocks that exist; the first entry for an address counts.
\<close>

datatype owner = Internal | Foreign

type_synonym heap = "(nat \<times> owner \<times> string) list"

datatype fault = InvalidFree | InvalidRead

definition cstr :: "heap \<Rightarrow> ptr \<Rightarrow> string option" where
  "cstr h p = (case p of Null \<Rightarrow> None | Addr a \<Rightarrow> map_option snd (map_of h a))"

definition live_internal :: "heap \<Rightarrow> ptr \<Rightarrow> bool" where
  "live_internal h p =
     (case p of Null \<Rightarrow> False
      | Addr a \<Rightarrow> (case map_of h a of Some (Internal, s) \<Rightarrow> True | _ \<Rightarrow> False))"

text \<open>
  Modelled from the spec: \<^verbatim>\<open>InternalFree\<close> is declared in
  \<^verbatim>\<open>sanitizer_allocator_internal.h\<close>, which is not among the sources. In the data
  model a string field is "either null (unset) or owned" by its record, and the allocator
  returns "owned byte buffers with explicit release". So: releasing the null pointer does
  nothing, releasing a live block of the internal allocator removes it, and releasing
  anything else (a block already released, or one the allocator never handed out) is a
  fault.
\<close>

fun InternalFree :: "ptr \<Rightarrow> heap \<Rightarrow> fault + heap" where
  "InternalFree Null h = Inr h"
| "InternalFree (Addr a) h =
     (case map_of h a of
        Some (Internal, s) \<Rightarrow> Inr (filter (\<lambda>c. fst c \<noteq> a) h)
      | _ \<Rightarrow> Inl InvalidFree)"

text \<open>
  Modelled from the spec: the address that a new block of the internal allocator gets
  (\<^verbatim>\<open>InternalAlloc\<close> is not among the sources). It is the successor of the largest
  address in use, which no block has.
\<close>

definition fresh :: "heap \<Rightarrow> nat" where
  "fresh h = Suc (fold max (map fst h) 0)"

text \<open>
  Modelled from the spec: \<^verbatim>\<open>internal_strdup\<close> is declared in \<^verbatim>\<open>sanitizer_libc.h\<close>,
  which is not among the sources. The spec has every string of a record "exclusively owned
  by this record" in a buffer of the dedicated allocator. So: the string at the argument is
  read (a fault when there is none), a new block of the internal allocator receives a copy,
  and the new block's address is returned. Allocation itself never fails here.
\<close>

definition internal_strdup :: "ptr \<Rightarrow> heap \<Rightarrow> fault + (ptr \<times> heap)" where
  "internal_strdup s h =
     (case cstr h s of
        None \<Rightarrow> Inl InvalidRead
      | Some str \<Rightarrow> Inr (Addr (fresh h), (fresh h, Internal, str) # h))"

section \<open>AddressInfo\<close>

text \<open>
  \<^verbatim>\<open>uptr\<close> is the unsigned integer of pointer width; its declaration
  (\<^verbatim>\<open>sanitizer_internal_defs.h\<close>) is not among the sources, so the width \<open>'w\<close> is a
  parameter. \<^verbatim>\<open>int\<close> is taken as 32 bits (read with \<open>sint\<close>). The fields
  \<^verbatim>\<open>function\<close> and \<^verbatim>\<open>file\<close> carry a prime because both words are reserved.
  \<^verbatim>\<open>DataInfo\<close> is declared first: it shares three field names with
  \<^verbatim>\<open>AddressInfo\<close>, and the unqualified names are to mean the fields of the latter.
  Its field \<^verbatim>\<open>size\<close> carries a prime to keep HOL's \<open>size\<close> apart.
\<close>

record (overloaded) ('w::len) DataInfo =
  address :: "'w word"
  module :: ptr
  module_offset :: "'w word"
  name :: ptr
  start :: "'w word"
  size' :: "'w word"

record (overloaded) ('w::len) AddressInfo =
  address :: "'w word"
  module :: ptr
  module_offset :: "'w word"
  function' :: ptr
  file' :: ptr
  line :: "32 word"
  column :: "32 word"

text \<open>
  \<^verbatim>\<open>internal_memset(this, 0, sizeof(AddressInfo))\<close>: whatever the record held, every
  integer field reads 0 and every pointer field reads null afterwards.
\<close>

definition internal_memset_zero :: "'w::len AddressInfo \<Rightarrow> 'w AddressInfo" where
  "internal_memset_zero this =
     \<lparr>address = 0, module = Null, module_offset = 0, function' = Null, file' = Null,
      line = 0, column = 0\<rparr>"

text \<open>The constructor runs on uninitialised storage \<open>this\<close>.\<close>

definition AddressInfo_ctor :: "'w::len AddressInfo \<Rightarrow> 'w AddressInfo" where
  "AddressInfo_ctor this = internal_memset_zero this"

text \<open>\<^verbatim>\<open>Clear()\<close>: three releases in the order of the source, then the reset.\<close>

definition Clear :: "'w::len AddressInfo \<Rightarrow> heap \<Rightarrow> fault + ('w AddressInfo \<times> heap)" where
  "Clear this h =
     (case InternalFree (module this) h of
        Inl e \<Rightarrow> Inl e
      | Inr h1 \<Rightarrow>
          (case InternalFree (function' this) h1 of
             Inl e \<Rightarrow> Inl e
           | Inr h2 \<Rightarrow>
               (case InternalFree (file' this) h2 of
                  Inl e \<Rightarrow> Inl e
                | Inr h3 \<Rightarrow> Inr (internal_memset_zero this, h3))))"

definition FillAddressAndModuleInfo ::
  "'w::len AddressInfo \<Rightarrow> 'w word \<Rightarrow> ptr \<Rightarrow> 'w word \<Rightarrow> heap \<Rightarrow> fault + ('w AddressInfo \<times> heap)"
where
  "FillAddressAndModuleInfo this addr mod_name mod_offset h =
     (case internal_strdup mod_name h of
        Inl e \<Rightarrow> Inl e
      | Inr (p, h') \<Rightarrow>
          Inr (this\<lparr>address := addr, module := p, module_offset := mod_offset\<rparr>, h'))"

text \<open>
  The invariant of the data model for the strings of a record: each string field is null
  or a live block of the internal allocator, and no block is held by two fields.
\<close>

definition owns :: "heap \<Rightarrow> 'w::len AddressInfo \<Rightarrow> bool" where
  "owns h this =
     (let ps = filter (\<lambda>p. p \<noteq> Null) [module this, function' this, file' this]
      in distinct ps \<and> list_all (live_internal h) ps)"

section \<open>Symbolizer\<close>

text \<open>
  \<^verbatim>\<open>class Symbolizer\<close> has no non-static data member, and it is the only class the
  sources define, so an object is the single value below. Every virtual method takes
  \<open>this\<close>; a method that could change the object or a buffer of the caller returns it.
  The output buffer \<^verbatim>\<open>frames\<close> is the list of the caller's records.
\<close>

datatype Symbolizer = Symbolizer

definition SymbolizeCode ::
  "Symbolizer \<Rightarrow> 'w::len word \<Rightarrow> 'w AddressInfo list \<Rightarrow> 'w word
     \<Rightarrow> 'w word \<times> 'w AddressInfo list"
where
  "SymbolizeCode this addr frames max_frames = (0, frames)"

definition SymbolizeData ::
  "Symbolizer \<Rightarrow> 'w::len word \<Rightarrow> 'w DataInfo \<Rightarrow> bool \<times> 'w DataInfo"
where
  "SymbolizeData this addr info = (False, info)"

definition IsAvailable :: "Symbolizer \<Rightarrow> bool" where
  "IsAvailable this = False"

definition IsExternalAvailable :: "Symbolizer \<Rightarrow> bool" where
  "IsExternalAvailable this = False"

definition Flush :: "Symbolizer \<Rightarrow> Symbolizer" where
  "Flush this = this"

definition Demangle :: "Symbolizer \<Rightarrow> ptr \<Rightarrow> ptr" where
  "Demangle this name' = name'"

definition PrepareForSandboxing :: "Symbolizer \<Rightarrow> Symbolizer" where
  "PrepareForSandboxing this = this"

text \<open>
  A caller's use of an object over time: a sequence of method calls, each with its
  arguments (\<open>'u\<close> for \<^verbatim>\<open>uptr\<close>, \<open>'f\<close> and \<open>'d\<close> for the two records).
\<close>

datatype ('u, 'f, 'd) call =
    CallSymbolizeCode 'u "'f list" 'u
  | CallSymbolizeData 'u 'd
  | CallIsAvailable
  | CallIsExternalAvailable
  | CallFlush
  | CallDemangle ptr
  | CallPrepareForSandboxing

type_synonym 'w method_call = "('w word, 'w AddressInfo, 'w DataInfo) call"

fun invoke :: "Symbolizer \<Rightarrow> ('w::len) method_call \<Rightarrow> Symbolizer" where
  "invoke this (CallSymbolizeCode a frames m) = this"
| "invoke this (CallSymbolizeData a info) = this"
| "invoke this CallIsAvailable = this"
| "invoke this CallIsExternalAvailable = this"
| "invoke this CallFlush = Flush this"
| "invoke this (CallDemangle name') = this"
| "invoke this CallPrepareForSandboxing = PrepareForSandboxing this"

fun invoke_all :: "Symbolizer \<Rightarrow> ('w::len) method_call list \<Rightarrow> Symbolizer" where
  "invoke_all this [] = this"
| "invoke_all this (c # cs) = invoke_all (invoke this c) cs"

section \<open>The singleton\<close>

text \<open>
  The header declares \<^verbatim>\<open>GetOrNull\<close>, \<^verbatim>\<open>Init\<close>, \<^verbatim>\<open>Disable\<close>,
  \<^verbatim>\<open>PlatformInit\<close> and \<^verbatim>\<open>CreateAndStore\<close> and the static
  \<^verbatim>\<open>symbolizer_\<close>; their bodies are not among the sources. The process-wide state they
  work on: the published pointer (\<open>None\<close> for null, otherwise the index of an object),
  the objects created so far in \<^verbatim>\<open>symbolizer_allocator_\<close>, each given by the backends
  attached to it, and the number of helper processes spawned. The field
  \<^verbatim>\<open>symbolizer_\<close> is written with a prime: a name may not end in an underscore.
\<close>

datatype backend = InternalDebugInfo | ExternalProcess

record process =
  symbolizer' :: "nat option"
  objects :: "backend list list"
  helpers :: nat

text \<open>
  Modelled from the spec: \<^verbatim>\<open>GetOrNull\<close> (body not in the sources) "returns the
  instance if initialized, else a null indicator; never blocks, never initializes".
\<close>

definition GetOrNull :: "process \<Rightarrow> nat option" where
  "GetOrNull p = symbolizer' p"

text \<open>
  Modelled from the spec: \<^verbatim>\<open>CreateAndStore\<close> (body not in the sources) creates a
  symbolizer and stores it "without checking if one already exists" (header). It
  "constructs one, attaches platform-appropriate backends [...] and stores it"; an
  external-process backend spawns its helper "on first use (or at attach time)", and
  attach time is taken here. Which backends a platform attaches for a path is
  \<^verbatim>\<open>PlatformInit\<close>, a parameter here.
\<close>

definition CreateAndStore :: "(ptr \<Rightarrow> backend list) \<Rightarrow> ptr \<Rightarrow> process \<Rightarrow> nat \<times> process" where
  "CreateAndStore PlatformInit path_to_external p =
     (let bs = PlatformInit path_to_external; k = length (objects p)
      in (k, p\<lparr>symbolizer' := Some k, objects := objects p @ [bs],
                helpers := helpers p + count_list bs ExternalProcess\<rparr>))"

text \<open>
  Modelled from the spec: \<^verbatim>\<open>Init\<close> (body not in the sources). "If no instance
  exists, constructs one [...] and stores it. If an instance already exists, returns it
  unchanged."
\<close>

definition Init :: "(ptr \<Rightarrow> backend list) \<Rightarrow> ptr \<Rightarrow> process \<Rightarrow> nat \<times> process" where
  "Init PlatformInit path_to_external p =
     (case GetOrNull p of
        Some k \<Rightarrow> (k, p)
      | None \<Rightarrow> CreateAndStore PlatformInit path_to_external p)"

text \<open>
  Modelled from the spec: \<^verbatim>\<open>Disable\<close> (body not in the sources). "Same idempotency
  rule, but constructs an instance with zero backends attached."
\<close>

definition Disable :: "process \<Rightarrow> nat \<times> process" where
  "Disable p =
     (case GetOrNull p of
        Some k \<Rightarrow> (k, p)
      | None \<Rightarrow>
          (length (objects p), p\<lparr>symbolizer' := Some (length (objects p)), objects := objects p @ [[]]\<rparr>))"

section \<open>Properties of AddressInfo\<close>

lemma Clear_zero_record:
  "Clear (internal_memset_zero this) h = Inr (internal_memset_zero this, h)"
  by (simp add: Clear_def internal_memset_zero_def)

text \<open>
  C10: a default-constructed AddressInfo has every field zero or null, whatever the storage
  held before; Clear() on it hands only null pointers to InternalFree, succeeds, and leaves
  record and heap as they were.
\<close>

theorem AddressInfo_ctor_zero_and_Clear_safe:
  "address (AddressInfo_ctor raw) = 0
   \<and> module (AddressInfo_ctor raw) = Null
   \<and> module_offset (AddressInfo_ctor raw) = 0
   \<and> function' (AddressInfo_ctor raw) = Null
   \<and> file' (AddressInfo_ctor raw) = Null
   \<and> line (AddressInfo_ctor raw) = 0
   \<and> column (AddressInfo_ctor raw) = 0
   \<and> Clear (AddressInfo_ctor raw) h = Inr (AddressInfo_ctor raw, h)"
  by (simp add: AddressInfo_ctor_def Clear_def internal_memset_zero_def)


lemma map_of_filter_fst:
  "map_of (filter (\<lambda>c. fst c \<noteq> a) h) b = (if b = a then None else map_of h b)"
  by (induction h) auto

lemma InternalFree_succeeds:
  "p = Null \<or> live_internal h p \<Longrightarrow> \<exists>h'. InternalFree p h = Inr h'"
  by (cases p) (auto simp: live_internal_def split: option.splits owner.splits)

lemma InternalFree_other:
  "InternalFree p h = Inr h' \<Longrightarrow> q \<noteq> p \<Longrightarrow> live_internal h' q = live_internal h q"
  by (cases p; cases q)
     (auto simp: live_internal_def map_of_filter_fst split: option.splits owner.splits)

lemma InternalFree_gone:
  "InternalFree p h = Inr h' \<Longrightarrow> \<not> live_internal h' p"
  by (cases p)
     (auto simp: live_internal_def map_of_filter_fst split: option.splits owner.splits)

lemma InternalFree_stays_dead:
  "InternalFree p h = Inr h' \<Longrightarrow> \<not> live_internal h q \<Longrightarrow> \<not> live_internal h' q"
  using InternalFree_gone InternalFree_other by (cases "q = p") auto

lemma Clear_succeeds:
  fixes this :: "'w::len AddressInfo"
  assumes "owns h this"
  shows "\<exists>h'. Clear this h = Inr (internal_memset_zero this, h')"
proof -
  let ?m = "module this" and ?f = "function' this" and ?g = "file' this"
  from assms have m: "?m = Null \<or> live_internal h ?m"
    and f: "?f = Null \<or> (live_internal h ?f \<and> ?f \<noteq> ?m)"
    and g: "?g = Null \<or> (live_internal h ?g \<and> ?g \<noteq> ?m \<and> ?g \<noteq> ?f)"
    by (auto simp: owns_def Let_def split: if_splits)
  from InternalFree_succeeds [OF m] obtain h1 where h1: "InternalFree ?m h = Inr h1" ..
  from f InternalFree_other [OF h1] have "?f = Null \<or> live_internal h1 ?f" by auto
  from InternalFree_succeeds [OF this] obtain h2 where h2: "InternalFree ?f h1 = Inr h2" ..
  from g InternalFree_other [OF h1] InternalFree_other [OF h2]
  have "?g = Null \<or> live_internal h2 ?g" by auto
  from InternalFree_succeeds [OF this] obtain h3 where h3: "InternalFree ?g h2 = Inr h3" ..
  from h1 h2 h3 show ?thesis by (simp add: Clear_def)
qed

lemma Clear_releases:
  fixes this :: "'w::len AddressInfo"
  assumes "Clear this h = Inr (this', h')"
  shows "this' = internal_memset_zero this"
    and "\<not> live_internal h' (module this)"
    and "\<not> live_internal h' (function' this)"
    and "\<not> live_internal h' (file' this)"
proof -
  from assms obtain h1 h2 where h1: "InternalFree (module this) h = Inr h1"
    and h2: "InternalFree (function' this) h1 = Inr h2"
    and h3: "InternalFree (file' this) h2 = Inr h'"
    and z: "this' = internal_memset_zero this"
    by (auto simp: Clear_def split: sum.splits)
  show "this' = internal_memset_zero this" by (rule z)
  from InternalFree_gone [OF h1] InternalFree_stays_dead [OF h2] InternalFree_stays_dead [OF h3]
  show "\<not> live_internal h' (module this)" by blast
  from InternalFree_gone [OF h2] InternalFree_stays_dead [OF h3]
  show "\<not> live_internal h' (function' this)" by blast
  from InternalFree_gone [OF h3] show "\<not> live_internal h' (file' this)" .
qed

text \<open>
  C2: Clear() on a record whose string fields are null or distinct live blocks of the
  internal allocator returns; and whenever Clear() returns, every field of the record is
  zero or null, the three strings are released, and a second Clear() on the result returns
  too, handing only null pointers to InternalFree and changing neither record nor heap.
\<close>

theorem Clear_resets_record_and_second_Clear_safe:
  fixes this :: "'w::len AddressInfo"
  shows "(owns h this \<longrightarrow> (\<exists>h'. Clear this h = Inr (internal_memset_zero this, h')))
   \<and> (\<forall>this' h'. Clear this h = Inr (this', h') \<longrightarrow>
          address this' = 0 \<and> module this' = Null \<and> module_offset this' = 0
        \<and> function' this' = Null \<and> file' this' = Null \<and> line this' = 0 \<and> column this' = 0
        \<and> \<not> live_internal h' (module this)
        \<and> \<not> live_internal h' (function' this)
        \<and> \<not> live_internal h' (file' this)
        \<and> Clear this' h' = Inr (this', h'))"
proof (intro conjI allI impI)
  assume "owns h this"
  then show "\<exists>h'. Clear this h = Inr (internal_memset_zero this, h')"
    by (rule Clear_succeeds)
next
  fix this' h'
  assume c: "Clear this h = Inr (this', h')"
  note r = Clear_releases [OF c]
  from r(1) show "address this' = 0" "module this' = Null" "module_offset this' = 0"
    "function' this' = Null" "file' this' = Null" "line this' = 0" "column this' = 0"
    by (simp_all add: internal_memset_zero_def)
  from r show "\<not> live_internal h' (module this)" "\<not> live_internal h' (function' this)"
    "\<not> live_internal h' (file' this)"
    by simp_all
  from r(1) show "Clear this' h' = Inr (this', h')"
    by (simp add: Clear_def internal_memset_zero_def)
qed

theorem Clear_resets_record_and_second_Clear_safe_witness:
  "owns [(1, Internal, ''app''), (2, Internal, ''main''), (3, Internal, ''main.c'')]
     (\<lparr>address = 0x401000, module = Addr 1, module_offset = 0x1000, function' = Addr 2,
       file' = Addr 3, line = 10, column = 0\<rparr> :: 64 AddressInfo)
   \<and> Clear (\<lparr>address = 0x401000, module = Addr 1, module_offset = 0x1000, function' = Addr 2,
       file' = Addr 3, line = 10, column = 0\<rparr> :: 64 AddressInfo)
       [(1, Internal, ''app''), (2, Internal, ''main''), (3, Internal, ''main.c'')]
     = Inr (\<lparr>address = 0, module = Null, module_offset = 0, function' = Null,
       file' = Null, line = 0, column = 0\<rparr>, [])
   \<and> Clear (\<lparr>address = 0, module = Null, module_offset = 0, function' = Null,
       file' = Null, line = 0, column = 0\<rparr> :: 64 AddressInfo) []
     = Inr (\<lparr>address = 0, module = Null, module_offset = 0, function' = Null,
       file' = Null, line = 0, column = 0\<rparr>, [])"
  using Clear_resets_record_and_second_Clear_safe
    [of "[(1, Internal, ''app''), (2, Internal, ''main''), (3, Internal, ''main.c'')]"
        "\<lparr>address = 0x401000, module = Addr 1, module_offset = 0x1000, function' = Addr 2,
          file' = Addr 3, line = 10, column = 0\<rparr> :: 64 AddressInfo"]
  by (simp add: owns_def live_internal_def Clear_def internal_memset_zero_def)


lemma fold_max_upper:
  "b \<le> fold max xs (b::nat) \<and> (\<forall>x \<in> set xs. x \<le> fold max xs b)"
proof (induction xs arbitrary: b)
  case Nil
  show ?case by simp
next
  case (Cons y ys)
  from Cons [of "max y b"] show ?case by auto
qed

lemma fresh_unused: "map_of h (fresh h) = None"
proof -
  have "fresh h \<notin> fst ` set h"
  proof
    assume "fresh h \<in> fst ` set h"
    then have "fresh h \<in> set (map fst h)" by simp
    with fold_max_upper [of 0 "map fst h"] have "fresh h \<le> fold max (map fst h) 0" by blast
    then show False by (simp add: fresh_def)
  qed
  then show ?thesis by (simp add: map_of_eq_None_iff)
qed

lemma internal_strdup_copy:
  assumes "cstr h s = Some str"
  shows "internal_strdup s h = Inr (Addr (fresh h), (fresh h, Internal, str) # h)"
    and "Addr (fresh h) \<noteq> s"
    and "cstr h (Addr (fresh h)) = None"
    and "cstr ((fresh h, Internal, str) # h) s = Some str"
proof -
  from assms show "internal_strdup s h = Inr (Addr (fresh h), (fresh h, Internal, str) # h)"
    by (simp add: internal_strdup_def)
  show n: "cstr h (Addr (fresh h)) = None"
    by (simp add: cstr_def fresh_unused)
  from assms n show d: "Addr (fresh h) \<noteq> s" by auto
  from assms d show "cstr ((fresh h, Internal, str) # h) s = Some str"
    by (cases s) (auto simp: cstr_def)
qed

text \<open>
  C9: when \<open>mod_name\<close> points to a string, FillAddressAndModuleInfo returns; in the record
  it returns, address is \<open>addr\<close>, module_offset is \<open>mod_offset\<close>, and module is a block of
  the internal allocator that did not exist before the call, differs from \<open>mod_name\<close> and
  holds the same string, which \<open>mod_name\<close> still holds as well; function, file, line and
  column are as they were.
\<close>

theorem FillAddressAndModuleInfo_fields:
  fixes this :: "'w::len AddressInfo"
  assumes "cstr h mod_name = Some str"
  shows "\<exists>this' h'.
      FillAddressAndModuleInfo this addr mod_name mod_offset h = Inr (this', h')
    \<and> address this' = addr
    \<and> module_offset this' = mod_offset
    \<and> module this' \<noteq> Null
    \<and> module this' \<noteq> mod_name
    \<and> cstr h (module this') = None
    \<and> live_internal h' (module this')
    \<and> cstr h' (module this') = Some str
    \<and> cstr h' mod_name = Some str
    \<and> function' this' = function' this
    \<and> file' this' = file' this
    \<and> line this' = line this
    \<and> column this' = column this"
proof -
  let ?p = "Addr (fresh h)" and ?h' = "(fresh h, Internal, str) # h"
  let ?this' = "this\<lparr>address := addr, module := ?p, module_offset := mod_offset\<rparr>"
  note c = internal_strdup_copy [OF assms]
  from c(1) have "FillAddressAndModuleInfo this addr mod_name mod_offset h = Inr (?this', ?h')"
    by (simp add: FillAddressAndModuleInfo_def)
  moreover have "live_internal ?h' ?p" "cstr ?h' ?p = Some str"
    by (simp_all add: live_internal_def cstr_def)
  ultimately show ?thesis using c(2-4) by simp
qed

theorem FillAddressAndModuleInfo_fields_witness:
  "cstr [(5, Foreign, ''app'')] (Addr 5) = Some ''app''
   \<and> FillAddressAndModuleInfo
        (\<lparr>address = 0, module = Null, module_offset = 0, function' = Addr 2,
          file' = Null, line = 10, column = 4\<rparr> :: 64 AddressInfo)
        0x401000 (Addr 5) 0x1000 [(5, Foreign, ''app'')]
     = Inr (\<lparr>address = 0x401000, module = Addr 6, module_offset = 0x1000, function' = Addr 2,
          file' = Null, line = 10, column = 4\<rparr>,
          [(6, Internal, ''app''), (5, Foreign, ''app'')])"
  using FillAddressAndModuleInfo_fields
    [of "[(5, Foreign, ''app'')]" "Addr 5" "''app''"
        "\<lparr>address = 0, module = Null, module_offset = 0, function' = Addr 2,
          file' = Null, line = 10, column = 4\<rparr> :: 64 AddressInfo" "0x401000" "0x1000"]
  by (simp add: cstr_def FillAddressAndModuleInfo_def internal_strdup_def fresh_def)

section \<open>Properties of the Symbolizer\<close>

lemma invoke_all_same: "invoke_all this cs = this"
  by (cases this, cases "invoke_all this cs") simp

text \<open>
  C1: the Symbolizer of the sources, at any point of its life (after any sequence of
  method calls), answers every address and every output buffer alike: SymbolizeCode
  returns 0 and leaves the buffer alone, SymbolizeData returns false and leaves the
  record alone, and IsAvailable() is false.
\<close>

theorem default_Symbolizer_inert:
  "fst (SymbolizeCode (invoke_all this cs) addr frames max_frames) = 0
   \<and> snd (SymbolizeCode (invoke_all this cs) addr frames max_frames) = frames
   \<and> fst (SymbolizeData (invoke_all this cs) addr info) = False
   \<and> snd (SymbolizeData (invoke_all this cs) addr info) = info
   \<and> IsAvailable (invoke_all this cs) = False"
  by (simp add: SymbolizeCode_def SymbolizeData_def IsAvailable_def)

text \<open>
  C3: Demangle never fails (it has no failing result and does not touch memory); given a
  pointer to any string it returns a non-null pointer, namely the very pointer it was
  given, behind which the same string is found.
\<close>

theorem Demangle_returns_its_argument:
  assumes "cstr h name' = Some s"
  shows "Demangle this name' \<noteq> Null
    \<and> Demangle this name' = name'
    \<and> cstr h (Demangle this name') = Some s"
  using assms by (auto simp: Demangle_def cstr_def)

theorem Demangle_returns_its_argument_witness:
  "cstr [(7, Foreign, ''_Z3foov''), (8, Foreign, [])] (Addr 8) = Some []
   \<and> Demangle Symbolizer (Addr 8) = Addr 8"
  using Demangle_returns_its_argument
    [of "[(7, Foreign, ''_Z3foov''), (8, Foreign, [])]" "Addr 8" "[]" Symbolizer]
  by (simp add: cstr_def)

text \<open>
  C4: the count SymbolizeCode returns is at most \<open>max_frames\<close>; the buffer keeps its
  length, and every entry from the returned count onwards is as the caller left it, so at
  most \<open>max_frames\<close> entries are filled. The result is a count, never an error; with count
  0 the whole buffer is untouched.
\<close>

theorem SymbolizeCode_fills_at_most_max_frames:
  "fst (SymbolizeCode this addr frames max_frames) \<le> max_frames
   \<and> length (snd (SymbolizeCode this addr frames max_frames)) = length frames
   \<and> drop (unat (fst (SymbolizeCode this addr frames max_frames)))
        (snd (SymbolizeCode this addr frames max_frames))
     = drop (unat (fst (SymbolizeCode this addr frames max_frames))) frames"
  by (simp add: SymbolizeCode_def)

text \<open>
  C5: once PrepareForSandboxing() has been called on a Symbolizer, IsExternalAvailable()
  is false right away and after any further sequence of method calls on that object.
\<close>

theorem IsExternalAvailable_false_after_PrepareForSandboxing:
  "IsExternalAvailable (invoke_all (PrepareForSandboxing this) cs) = False"
  by (simp add: IsExternalAvailable_def)


section \<open>Properties of the singleton\<close>

lemma Init_publishes: "GetOrNull (snd (Init PlatformInit path p)) = Some (fst (Init PlatformInit path p))"
  by (simp add: Init_def GetOrNull_def CreateAndStore_def Let_def split: option.splits)

lemma Disable_publishes: "GetOrNull (snd (Disable p)) = Some (fst (Disable p))"
  by (simp add: Disable_def GetOrNull_def split: option.splits)

text \<open>
  C6: when an instance exists, Init and Disable return that instance and leave the whole
  process state (published pointer, objects and their backends, helper processes) as it
  was. So a second Init or Disable, after a first Init or Disable from any state and with
  any path, returns the instance the first call returned and changes nothing.
\<close>

theorem Init_Disable_idempotent:
  "(GetOrNull p = Some k \<longrightarrow> Init PlatformInit path p = (k, p) \<and> Disable p = (k, p))
   \<and> Init PlatformInit path2 (snd (Init PlatformInit path1 p))
       = (fst (Init PlatformInit path1 p), snd (Init PlatformInit path1 p))
   \<and> Disable (snd (Init PlatformInit path1 p))
       = (fst (Init PlatformInit path1 p), snd (Init PlatformInit path1 p))
   \<and> Disable (snd (Disable p)) = (fst (Disable p), snd (Disable p))
   \<and> Init PlatformInit path2 (snd (Disable p)) = (fst (Disable p), snd (Disable p))"
proof -
  have existing: "Init PlatformInit q s = (j, s) \<and> Disable s = (j, s)"
    if "GetOrNull s = Some j" for q s j
    using that by (simp add: Init_def Disable_def)
  show ?thesis
    using existing [OF Init_publishes] existing [OF Disable_publishes] existing
    by blast
qed

theorem Init_Disable_idempotent_witness:
  "GetOrNull \<lparr>symbolizer' = Some 0, objects = [[InternalDebugInfo]], helpers = 0\<rparr> = Some 0
   \<and> Init (\<lambda>path. [InternalDebugInfo, ExternalProcess]) (Addr 4)
        \<lparr>symbolizer' = Some 0, objects = [[InternalDebugInfo]], helpers = 0\<rparr>
     = (0, \<lparr>symbolizer' = Some 0, objects = [[InternalDebugInfo]], helpers = 0\<rparr>)
   \<and> Disable \<lparr>symbolizer' = Some 0, objects = [[InternalDebugInfo]], helpers = 0\<rparr>
     = (0, \<lparr>symbolizer' = Some 0, objects = [[InternalDebugInfo]], helpers = 0\<rparr>)"
  using Init_Disable_idempotent
    [of "\<lparr>symbolizer' = Some 0, objects = [[InternalDebugInfo]], helpers = 0\<rparr>" 0
        "\<lambda>path. [InternalDebugInfo, ExternalProcess]" "Addr 4"]
  by (simp add: GetOrNull_def)

end
